theory Spec2Isabelle
  imports Main "HOL-Library.Word"
begin

section \<open>Dashboard component: data model\<close>

text \<open>
  The component \<open>Dashboard\<close> of \<open>Dashboard.jsx\<close> reacts to changes of its props.
  A JavaScript object is modelled as an association list in the enumeration order of
  its own keys (\<open>Object.keys\<close>, \<open>Object.values\<close>: integer-like keys in ascending
  order, then the other keys in insertion order); reading a property is \<open>map_of\<close>,
  with \<open>None\<close> for \<open>undefined\<close>; inherited properties are left out.

  Chart ids, and the numbers among the selected values of a filter, are integers that
  a JavaScript number holds exactly and that \<open>String\<close> and \<open>JSON.stringify\<close> write as
  their decimal numeral: the integers from \<open>-2\<^sup>5\<^sup>3\<close> to \<open>2\<^sup>5\<^sup>3 - 1\<close>, taken here as
  the signed values (\<open>sint\<close>) of 54-bit words. Beyond that range a number is written
  with rounded digits, and from \<open>10\<^sup>2\<^sup>1\<close> on with an exponent. The component computes
  nothing with these numbers: it compares them and writes them as strings.

  The filters map a filter key to an object that maps a field name to the selected
  values, a scalar or an array.
\<close>

type_synonym safe_int = "54 word"

datatype fval = FNull | FBool bool | FNum safe_int | FStr string | FArr "fval list"

type_synonym filter_fields = "(string \<times> fval) list"

type_synonym filter_state = "(string \<times> filter_fields) list"

record chart =
  chart_id :: safe_int

record metadata =
  filterImmuneSlices :: "safe_int list option"
  filterImmuneSliceFields :: "(string \<times> string list) list option"

record dashboardState =
  hasUnsavedChanges :: bool
  editMode :: bool

text \<open>
  The props that the methods read. The field \<open>dashboardInfo_metadata\<close> is
  \<open>this.props.dashboardInfo.metadata\<close>; each of its two fields may be absent
  (\<open>None\<close>). The type of the layout is left open.
\<close>

record 'l props =
  layout :: 'l
  dashboardState :: dashboardState
  dashboardInfo_metadata :: metadata
  charts :: "(string \<times> chart) list"
  filters :: filter_state

text \<open>
  The calls made on \<open>this.props.actions\<close>, in the order they are made:
  \<open>componentWillReceiveProps\<close> calls \<open>addSliceToDashboard\<close> (with the chart id and its
  layout component) and \<open>removeSliceFromDashboard\<close>, \<open>refreshExcept\<close> calls
  \<open>triggerQuery\<close>.
\<close>

datatype 'c slice_action =
    AddSliceToDashboard safe_int 'c
  | RemoveSliceFromDashboard safe_int

datatype query_action = TriggerQuery bool safe_int

datatype error = TypeError

datatype listener = Dashboard_unload | Other_listener nat

text \<open>
  The mutable state the component touches: its field \<open>this.appliedFilters\<close> and the
  listeners registered on \<open>window\<close>, as pairs of event type and listener.
\<close>

record component =
  appliedFilters :: filter_state
  window_listeners :: "(string \<times> listener) list"

section \<open>JavaScript primitives used by the component\<close>

definition digit_char :: "nat \<Rightarrow> char" where
  "digit_char n = ''0123456789abcdef'' ! n"

fun string_of_nat :: "nat \<Rightarrow> string" where
  "string_of_nat n =
     (if n < 10 then [digit_char n] else string_of_nat (n div 10) @ [digit_char (n mod 10)])"

declare string_of_nat.simps [simp del]

text \<open>
  \<open>String(n)\<close> for a number of that range: its decimal digits, after a minus sign when
  it is negative.
\<close>

definition js_String :: "safe_int \<Rightarrow> string" where
  "js_String n =
     (if sint n < 0 then CHR ''-'' # string_of_nat (nat (- sint n)) else string_of_nat (nat (sint n)))"

text \<open>\<open>!!key\<close> for a value that is \<open>null\<close> or a string: the empty string is falsy.\<close>

fun truthy :: "string option \<Rightarrow> bool" where
  "truthy None = False"
| "truthy (Some k) = (k \<noteq> [])"

definition Object_keys :: "('k \<times> 'v) list \<Rightarrow> 'k list" where
  "Object_keys obj = map fst obj"

definition Object_values :: "('k \<times> 'v) list \<Rightarrow> 'v list" where
  "Object_values obj = map snd obj"

text \<open>
  \<open>window.addEventListener\<close> ignores a listener that is already registered for the
  event type; \<open>window.removeEventListener\<close> removes the registered one, if any.
\<close>

definition addEventListener :: "string \<Rightarrow> listener \<Rightarrow> (string \<times> listener) list \<Rightarrow> (string \<times> listener) list" where
  "addEventListener ty l w = (if (ty, l) \<in> set w then w else w @ [(ty, l)])"

definition removeEventListener :: "string \<Rightarrow> listener \<Rightarrow> (string \<times> listener) list \<Rightarrow> (string \<times> listener) list" where
  "removeEventListener ty l w = remove1 (ty, l) w"

section \<open>Helpers imported by the component\<close>

text \<open>
  Modelled from the spec: \<open>safeStringify\<close> (utils/safeStringify) is imported but not
  part of the sources. The component compares the two filter states through it; the
  model is the JSON text of a filter state, keys in enumeration order, as
  \<open>JSON.stringify\<close> writes acyclic data.
\<close>

definition escape_char :: "char \<Rightarrow> string" where
  "escape_char c =
     (if c = CHR 0x22 then [CHR 0x5C, CHR 0x22]
      else if c = CHR 0x5C then [CHR 0x5C, CHR 0x5C]
      else if c = CHR 0x08 then [CHR 0x5C, CHR ''b'']
      else if c = CHR 0x0C then [CHR 0x5C, CHR ''f'']
      else if c = CHR 0x0A then [CHR 0x5C, CHR ''n'']
      else if c = CHR 0x0D then [CHR 0x5C, CHR ''r'']
      else if c = CHR 0x09 then [CHR 0x5C, CHR ''t'']
      else if (of_char c :: nat) < 32
        then [CHR 0x5C, CHR ''u'', CHR ''0'', CHR ''0'',
              digit_char (of_char c div 16), digit_char (of_char c mod 16)]
      else [c])"

definition quote :: "string \<Rightarrow> string" where
  "quote s = CHR 0x22 # concat (map escape_char s) @ [CHR 0x22]"

fun commas :: "string list \<Rightarrow> string" where
  "commas [] = []"
| "commas [x] = x"
| "commas (x # y # zs) = x @ CHR '','' # commas (y # zs)"

fun stringify_fval :: "fval \<Rightarrow> string" where
  "stringify_fval FNull = ''null''"
| "stringify_fval (FBool b) = (if b then ''true'' else ''false'')"
| "stringify_fval (FNum i) = js_String i"
| "stringify_fval (FStr s) = quote s"
| "stringify_fval (FArr vs) = CHR ''['' # commas (map stringify_fval vs) @ '']''"

definition stringify_object :: "('v \<Rightarrow> string) \<Rightarrow> (string \<times> 'v) list \<Rightarrow> string" where
  "stringify_object f obj =
     CHR ''{'' # commas (map (\<lambda>(k, v). quote k @ CHR '':'' # f v) obj) @ ''}''"

definition safeStringify :: "filter_state \<Rightarrow> string" where
  "safeStringify fs = stringify_object (stringify_object stringify_fval) fs"

text \<open>
  Modelled from the spec: \<open>areObjectsEqual\<close> (reduxUtils) is imported but not part of
  the sources. The spec describes it as a structural-equality comparator over nested
  mapping and sequence data: two objects are equal when they have the same number of
  keys and every key of the first has an equal value in the second, whatever the order
  of the keys; \<open>undefined\<close> equals only \<open>undefined\<close>.
\<close>

fun areObjectsEqual :: "filter_fields option \<Rightarrow> filter_fields option \<Rightarrow> bool" where
  "areObjectsEqual None None = True"
| "areObjectsEqual (Some a) (Some b) =
     (length a = length b \<and> list_all (\<lambda>(k, v). map_of b k = Some v) a)"
| "areObjectsEqual _ _ = False"

section \<open>The component's methods\<close>

text \<open>
  \<open>Dashboard.onBeforeUnload(hasChanged)\<close> registers or removes the listener
  \<open>Dashboard.unload\<close> for the event \<open>beforeunload\<close>.
\<close>

definition onBeforeUnload :: "bool \<Rightarrow> (string \<times> listener) list \<Rightarrow> (string \<times> listener) list" where
  "onBeforeUnload hasChanged w =
     (if hasChanged then addEventListener ''beforeunload'' Dashboard_unload w
      else removeEventListener ''beforeunload'' Dashboard_unload w)"

text \<open>The constructor sets \<open>this.appliedFilters = {}\<close>.\<close>

definition constructor :: "(string \<times> listener) list \<Rightarrow> component" where
  "constructor w = \<lparr>appliedFilters = [], window_listeners = w\<rparr>"

text \<open>
  \<open>componentWillReceiveProps(nextProps)\<close>. The helpers \<open>getChartIdsFromLayout\<close> and
  \<open>getLayoutComponentFromChartId\<close> are imported from files that are not part of the
  sources; they are parameters. The result is the sequence of calls on the actions.
\<close>

definition componentWillReceiveProps ::
  "('l \<Rightarrow> safe_int list) \<Rightarrow> ('l \<Rightarrow> safe_int \<Rightarrow> 'c) \<Rightarrow> 'l props \<Rightarrow> 'l props \<Rightarrow> 'c slice_action list" where
  "componentWillReceiveProps getChartIdsFromLayout getLayoutComponentFromChartId this_props nextProps =
     (let currentChartIds = getChartIdsFromLayout (layout this_props);
          nextChartIds = getChartIdsFromLayout (layout nextProps)
      in if length currentChartIds < length nextChartIds then
           (let newChartIds = filter (\<lambda>key. key \<notin> set currentChartIds) nextChartIds
            in map (\<lambda>newChartId. AddSliceToDashboard newChartId
                      (getLayoutComponentFromChartId (layout nextProps) newChartId)) newChartIds)
         else if length currentChartIds > length nextChartIds then
           (let removedChartIds = filter (\<lambda>key. key \<notin> set nextChartIds) currentChartIds
            in map RemoveSliceFromDashboard removedChartIds)
         else [])"

definition getAllCharts :: "'l props \<Rightarrow> chart list" where
  "getAllCharts p = Object_values (charts p)"

text \<open>
  The callback that \<open>refreshExcept\<close> runs for one chart. A method call or a property
  read on an absent (\<open>undefined\<close>) metadata field throws a \<open>TypeError\<close>; the left
  operand of \<open>||\<close> is evaluated first and decides alone when it is true.
\<close>

definition refreshChart ::
  "string option \<Rightarrow> string list \<Rightarrow> metadata \<Rightarrow> chart \<Rightarrow> error + query_action list" where
  "refreshChart filterKey currentFilteredNames md chart =
     (if Some (js_String (chart_id chart)) = filterKey then Inr []
      else case filterImmuneSlices md of
        None \<Rightarrow> Inl TypeError
      | Some immuneSlices \<Rightarrow>
          if chart_id chart \<in> set immuneSlices then Inr []
          else case filterImmuneSliceFields md of
            None \<Rightarrow> Inl TypeError
          | Some immuneFields \<Rightarrow>
              (let filterImmuneSliceFieldsNames =
                     (case map_of immuneFields (js_String (chart_id chart)) of
                        None \<Rightarrow> [] | Some names \<Rightarrow> names)
               in if length currentFilteredNames = 0
                     \<or> list_ex (\<lambda>name. name \<notin> set filterImmuneSliceFieldsNames) currentFilteredNames
                  then Inr [TriggerQuery True (chart_id chart)]
                  else Inr []))"

text \<open>
  \<open>forEach\<close> over the charts: the calls made so far, and the error that ended the loop,
  if one did.
\<close>

fun forEachChart :: "(chart \<Rightarrow> error + query_action list) \<Rightarrow> chart list \<Rightarrow> query_action list \<times> error option" where
  "forEachChart f [] = ([], None)"
| "forEachChart f (chart # rest) =
     (case f chart of
        Inl e \<Rightarrow> ([], Some e)
      | Inr calls \<Rightarrow> (let (more, r) = forEachChart f rest in (calls @ more, r)))"

definition refreshExcept :: "'l props \<Rightarrow> string option \<Rightarrow> query_action list \<times> error option" where
  "refreshExcept p filterKey =
     (let currentFilteredNames =
            (case filterKey of
               None \<Rightarrow> []
             | Some k \<Rightarrow>
                 if k = [] then []
                 else case map_of (filters p) k of None \<Rightarrow> [] | Some obj \<Rightarrow> Object_keys obj)
      in forEachChart (refreshChart filterKey currentFilteredNames (dashboardInfo_metadata p))
           (getAllCharts p))"

text \<open>
  The loop of \<open>componentDidUpdate\<close> over the keys of the current filters: every key that
  is new or whose value differs overwrites \<open>changedFilterKey\<close>.
\<close>

definition changedFilterKey :: "filter_state \<Rightarrow> filter_state \<Rightarrow> string option" where
  "changedFilterKey applied current =
     foldl (\<lambda>changed key.
              if map_of applied key = None
                 \<or> \<not> areObjectsEqual (map_of applied key) (map_of current key)
              then Some key else changed)
       None (Object_keys current)"

text \<open>
  \<open>componentDidUpdate()\<close>: the calls on the actions, the error thrown (if any), and the
  state afterwards. An error leaves the method at once, so neither the assignment to
  \<open>this.appliedFilters\<close> nor the call of \<open>onBeforeUnload\<close> happens.
\<close>

definition componentDidUpdate :: "'l props \<Rightarrow> component \<Rightarrow> query_action list \<times> error option \<times> component" where
  "componentDidUpdate p s =
     (let applied = appliedFilters s;
          current = filters p;
          (calls, err, s1) =
            (if \<not> editMode (dashboardState p) \<and> safeStringify applied \<noteq> safeStringify current then
               (let changed = changedFilterKey applied current;
                    currFilterKeys = Object_keys current;
                    appliedFilterKeys = Object_keys applied
                in if truthy changed \<or> length currFilterKeys \<noteq> length appliedFilterKeys then
                     (case refreshExcept p changed of
                        (calls, Some e) \<Rightarrow> (calls, Some e, s)
                      | (calls, None) \<Rightarrow> (calls, None, s\<lparr>appliedFilters := current\<rparr>))
                   else ([], None, s))
             else ([], None, s))
      in case err of
           Some e \<Rightarrow> (calls, Some e, s1)
         | None \<Rightarrow>
             (calls, None,
              s1\<lparr>window_listeners :=
                    onBeforeUnload (hasUnsavedChanges (dashboardState p)) (window_listeners s1)\<rparr>))"

section \<open>Notions used to state the properties\<close>

text \<open>
  The component refreshes the charts when the conditions of both \<open>if\<close> statements of
  \<open>componentDidUpdate\<close> hold: not in edit mode, the two filter states have different
  JSON texts, and a changed key was recorded or the numbers of keys differ.
\<close>

definition refreshes :: "'l props \<Rightarrow> component \<Rightarrow> bool" where
  "refreshes p s \<longleftrightarrow>
     \<not> editMode (dashboardState p)
     \<and> safeStringify (appliedFilters s) \<noteq> safeStringify (filters p)
     \<and> (truthy (changedFilterKey (appliedFilters s) (filters p))
          \<or> length (Object_keys (filters p)) \<noteq> length (Object_keys (appliedFilters s)))"

text \<open>The keys of the current filters that are new or whose value differs, in key order.\<close>

definition changedKeys :: "filter_state \<Rightarrow> filter_state \<Rightarrow> string list" where
  "changedKeys applied current =
     filter (\<lambda>key. map_of applied key = None
                   \<or> \<not> areObjectsEqual (map_of applied key) (map_of current key))
       (Object_keys current)"

text \<open>The field names that \<open>refreshExcept\<close> compares with the immune fields of a chart.\<close>

definition fieldNames :: "filter_state \<Rightarrow> string \<Rightarrow> string list" where
  "fieldNames fs k = (case map_of fs k of None \<Rightarrow> [] | Some obj \<Rightarrow> Object_keys obj)"

text \<open>
  What \<open>refreshExcept\<close> does with one chart, told as the spec tells it, for the filter
  key \<open>k\<close> and the field names \<open>names\<close>. The immune fields of a chart are its entry in
  \<open>filterImmuneSliceFields\<close>, none without an entry. The evaluation throws at a chart
  that is not the chart of the filter key and reaches an absent metadata field. A
  chart is re-queried when it is not the chart of the filter key, is not in
  \<open>filterImmuneSlices\<close>, and either there are no field names or one of them is not
  among its immune fields.
\<close>

definition immuneFieldNames :: "metadata \<Rightarrow> chart \<Rightarrow> string list" where
  "immuneFieldNames md c =
     (case filterImmuneSliceFields md of
        None \<Rightarrow> []
      | Some m \<Rightarrow> (case map_of m (js_String (chart_id c)) of None \<Rightarrow> [] | Some names \<Rightarrow> names))"

definition throwsAt :: "string option \<Rightarrow> metadata \<Rightarrow> chart \<Rightarrow> bool" where
  "throwsAt k md c \<longleftrightarrow>
     Some (js_String (chart_id c)) \<noteq> k
     \<and> (case filterImmuneSlices md of
          None \<Rightarrow> True
        | Some l \<Rightarrow> chart_id c \<notin> set l \<and> filterImmuneSliceFields md = None)"

definition requeried :: "string option \<Rightarrow> string list \<Rightarrow> metadata \<Rightarrow> chart \<Rightarrow> bool" where
  "requeried k names md c \<longleftrightarrow>
     Some (js_String (chart_id c)) \<noteq> k
     \<and> (case filterImmuneSlices md of None \<Rightarrow> False | Some l \<Rightarrow> chart_id c \<notin> set l)
     \<and> (names = [] \<or> list_ex (\<lambda>name. name \<notin> set (immuneFieldNames md c)) names)"

text \<open>Counting the calls that concern one chart id.\<close>

fun is_attach :: "safe_int \<Rightarrow> 'c slice_action \<Rightarrow> bool" where
  "is_attach i (AddSliceToDashboard j c) = (i = j)"
| "is_attach i _ = False"

fun is_detach :: "safe_int \<Rightarrow> 'c slice_action \<Rightarrow> bool" where
  "is_detach i (RemoveSliceFromDashboard j) = (i = j)"
| "is_detach i _ = False"

fun is_requery :: "safe_int \<Rightarrow> query_action \<Rightarrow> bool" where
  "is_requery i (TriggerQuery force j) = (i = j)"

definition attaches :: "'c slice_action list \<Rightarrow> safe_int \<Rightarrow> nat" where
  "attaches calls i = length (filter (is_attach i) calls)"

definition detaches :: "'c slice_action list \<Rightarrow> safe_int \<Rightarrow> nat" where
  "detaches calls i = length (filter (is_detach i) calls)"

definition requeries :: "query_action list \<Rightarrow> safe_int \<Rightarrow> nat" where
  "requeries calls i = length (filter (is_requery i) calls)"

text \<open>
  An association list stands for a JavaScript object only if no key occurs twice; a
  filter state is an object whose values are objects. Two filter states are
  structurally equal when they are the same nested mapping, whatever the order of
  their keys.
\<close>

definition wf_object :: "(string \<times> 'v) list \<Rightarrow> bool" where
  "wf_object obj = distinct (map fst obj)"

definition wf_filters :: "filter_state \<Rightarrow> bool" where
  "wf_filters fs = (wf_object fs \<and> list_all (\<lambda>kv. wf_object (snd kv)) fs)"

definition structurallyEqual :: "filter_state \<Rightarrow> filter_state \<Rightarrow> bool" where
  "structurallyEqual a b = (map_option map_of \<circ> map_of a = map_option map_of \<circ> map_of b)"

section \<open>Concrete inputs\<close>

text \<open>
  The scenario of the spec: charts 1, 2 and 3, chart 3 immune to every filter, chart 2
  immune to the field \<open>region\<close>, and the filter \<open>{"10": {"region": ["US"]}}\<close>.
\<close>

definition scenario_props :: "unit props" where
  "scenario_props =
     \<lparr>layout = (),
      dashboardState = \<lparr>hasUnsavedChanges = False, editMode = False\<rparr>,
      dashboardInfo_metadata =
        \<lparr>filterImmuneSlices = Some [3],
         filterImmuneSliceFields = Some [(''2'', [''region''])]\<rparr>,
      charts = [(''1'', \<lparr>chart_id = 1\<rparr>), (''2'', \<lparr>chart_id = 2\<rparr>), (''3'', \<lparr>chart_id = 3\<rparr>)],
      filters = [(''10'', [(''region'', FArr [FStr ''US''])])]\<rparr>"

text \<open>
  The scenario with a second filter key: both keys are new, chart 2 is immune to the
  field of the first key and not to the field of the second.
\<close>

definition two_filters_props :: "unit props" where
  "two_filters_props =
     scenario_props
       \<lparr>filters := [(''10'', [(''region'', FArr [FStr ''US''])]),
                    (''11'', [(''country'', FArr [FStr ''FR''])])]\<rparr>"

text \<open>
  A filter with two fields, and the same filter with its fields in the other order.
\<close>

definition two_fields_props :: "unit props" where
  "two_fields_props =
     scenario_props
       \<lparr>filters := [(''10'', [(''region'', FArr [FStr ''US'']),
                             (''country'', FArr [FStr ''FR''])])]\<rparr>"

definition two_fields_reordered :: filter_state where
  "two_fields_reordered =
     [(''10'', [(''country'', FArr [FStr ''FR'']), (''region'', FArr [FStr ''US''])])]"

text \<open>
  Inputs with the empty string as a filter key: a new filter under it after the new
  filter \<open>10\<close>, with chart 2 immune to its only field; and a filter under it whose
  value changes.
\<close>

definition empty_key_props :: "unit props" where
  "empty_key_props =
     \<lparr>layout = (),
      dashboardState = \<lparr>hasUnsavedChanges = False, editMode = False\<rparr>,
      dashboardInfo_metadata =
        \<lparr>filterImmuneSlices = Some [],
         filterImmuneSliceFields = Some [(''2'', [''region''])]\<rparr>,
      charts = [(''2'', \<lparr>chart_id = 2\<rparr>)],
      filters = [(''10'', [(''country'', FArr [FStr ''FR''])]),
                 ([], [(''region'', FArr [FStr ''US''])])]\<rparr>"

definition empty_key_changed_props :: "unit props" where
  "empty_key_changed_props =
     empty_key_props\<lparr>filters := [([], [(''region'', FArr [FStr ''EU''])])]\<rparr>"

definition empty_key_applied :: filter_state where
  "empty_key_applied = [([], [(''region'', FArr [FStr ''US''])])]"

text \<open>Props that show the given layout and nothing else.\<close>

definition layout_props :: "'l \<Rightarrow> 'l props" where
  "layout_props l =
     \<lparr>layout = l,
      dashboardState = \<lparr>hasUnsavedChanges = False, editMode = False\<rparr>,
      dashboardInfo_metadata = \<lparr>filterImmuneSlices = Some [], filterImmuneSliceFields = Some []\<rparr>,
      charts = [],
      filters = []\<rparr>"

section \<open>Basic facts\<close>

lemma js_String_1: "js_String 1 = ''1''"
  by code_simp

lemma js_String_2: "js_String 2 = ''2''"
  by code_simp

lemma js_String_3: "js_String 3 = ''3''"
  by code_simp

lemma safeStringify_nonempty: "safeStringify (kv # fs) \<noteq> safeStringify []"
  by (cases kv; cases fs) (simp_all add: safeStringify_def stringify_object_def quote_def)

lemma safeStringify_nonempty': "safeStringify [] \<noteq> safeStringify (kv # fs)"
  using safeStringify_nonempty [of kv fs] by simp

lemma componentDidUpdate_unfold:
  "(componentDidUpdate p s) =
     (if refreshes p s then
        (case refreshExcept p (changedFilterKey (appliedFilters s) (filters p)) of
           (calls, Some e) \<Rightarrow> (calls, Some e, s)
         | (calls, None) \<Rightarrow>
             (calls, None,
              s\<lparr>appliedFilters := filters p,
                window_listeners :=
                  onBeforeUnload (hasUnsavedChanges (dashboardState p)) (window_listeners s)\<rparr>))
      else ([], None,
            s\<lparr>window_listeners :=
                 onBeforeUnload (hasUnsavedChanges (dashboardState p)) (window_listeners s)\<rparr>))"
proof -
  obtain calls r where re:
    "refreshExcept p (changedFilterKey (appliedFilters s) (filters p)) = (calls, r)"
    by (cases "refreshExcept p (changedFilterKey (appliedFilters s) (filters p))")
  show ?thesis
  proof (cases "refreshes p s")
    case True
    then show ?thesis
      unfolding componentDidUpdate_def Let_def using re
      by (cases r) (simp_all add: refreshes_def)
  next
    case False
    then show ?thesis
      unfolding componentDidUpdate_def Let_def
      by (auto simp: refreshes_def)
  qed
qed

lemma componentDidUpdate_calls:
  "fst (componentDidUpdate p s) =
     (if refreshes p s
      then fst (refreshExcept p (changedFilterKey (appliedFilters s) (filters p)))
      else [])"
  by (simp add: componentDidUpdate_unfold split: prod.splits option.splits)

lemma componentDidUpdate_error:
  "fst (snd (componentDidUpdate p s)) =
     (if refreshes p s
      then snd (refreshExcept p (changedFilterKey (appliedFilters s) (filters p)))
      else None)"
  by (simp add: componentDidUpdate_unfold split: prod.splits option.splits)

lemma componentDidUpdate_applied:
  "appliedFilters (snd (snd (componentDidUpdate p s
                               ))) =
     (if refreshes p s
         \<and> snd (refreshExcept p (changedFilterKey (appliedFilters s) (filters p))) = None
      then filters p else appliedFilters s)"
  by (simp add: componentDidUpdate_unfold split: prod.splits option.splits)

lemma forEachChart_all_ok:
  "(\<And>c. c \<in> set cs \<Longrightarrow> f c = Inr (g c)) \<Longrightarrow> forEachChart f cs = (concat (map g cs), None)"
  by (induction cs) auto

section \<open>The scenario of the spec\<close>

text \<open>
  C2. In the scenario, starting from no applied filters and not in edit mode, the
  component re-queries chart 1 and neither chart 2 nor chart 3: the only call is
  \<open>triggerQuery(true, 1)\<close>.
\<close>

theorem scenario_requeries:
  "fst (componentDidUpdate scenario_props \<lparr>appliedFilters = [], window_listeners = w\<rparr>)
     = [TriggerQuery True 1]"
  by (simp add: componentDidUpdate_calls refreshes_def scenario_props_def safeStringify_nonempty'
      changedFilterKey_def Object_keys_def Object_values_def refreshExcept_def getAllCharts_def
      refreshChart_def js_String_1 js_String_2 js_String_3)

theorem scenario_requeries_witness:
  "fst (componentDidUpdate scenario_props (constructor [])) = [TriggerQuery True 1]"
  using scenario_requeries [of "[]"] by (simp add: constructor_def)

section \<open>Edit mode\<close>

text \<open>
  C4. In edit mode the component makes no call at all, whatever the filters, the
  charts and the metadata are; in particular it re-queries no chart.
\<close>

theorem edit_mode_no_requery:
  "editMode (dashboardState p) \<Longrightarrow> fst (componentDidUpdate p s) = []"
  by (simp add: componentDidUpdate_calls refreshes_def)

theorem edit_mode_no_requery_witness:
  "fst (componentDidUpdate
          (scenario_props\<lparr>dashboardState := \<lparr>hasUnsavedChanges = False, editMode = True\<rparr>\<rparr>)
          (constructor [])) = []"
  using edit_mode_no_requery
    [of "scenario_props\<lparr>dashboardState := \<lparr>hasUnsavedChanges = False, editMode = True\<rparr>\<rparr>"
        "constructor []"]
  by simp

section \<open>Removing the only filter\<close>

text \<open>
  C6, as the code has it. When one filter was applied, the current filters are empty,
  no chart is immune to all filters (the list \<open>filterImmuneSlices\<close> is empty), the
  mapping \<open>filterImmuneSliceFields\<close> is present and edit mode is off, the component
  re-queries every chart, once each, in the order of the charts.
\<close>

theorem remove_only_filter_requeries_all:
  assumes "appliedFilters s = [(k, v)]" and "filters p = []"
    and "filterImmuneSlices (dashboardInfo_metadata p) = Some []"
    and "filterImmuneSliceFields (dashboardInfo_metadata p) = Some m"
    and "\<not> editMode (dashboardState p)"
  shows "fst (componentDidUpdate p s) = map (\<lambda>c. TriggerQuery True (chart_id c)) (getAllCharts p)"
proof -
  have ne: "safeStringify (appliedFilters s) \<noteq> safeStringify (filters p)"
    using assms(1,2) safeStringify_nonempty by simp
  have "forEachChart (refreshChart None [] (dashboardInfo_metadata p)) (getAllCharts p)
      = (concat (map (\<lambda>c. [TriggerQuery True (chart_id c)]) (getAllCharts p)), None)"
    by (rule forEachChart_all_ok) (simp add: refreshChart_def assms(3,4))
  then have r: "refreshExcept p None
      = (map (\<lambda>c. TriggerQuery True (chart_id c)) (getAllCharts p), None)"
    by (simp add: refreshExcept_def)
  show ?thesis using ne assms
    by (simp add: componentDidUpdate_calls refreshes_def changedFilterKey_def Object_keys_def r)
qed

theorem remove_only_filter_requeries_all_witness:
  "fst (componentDidUpdate
          (scenario_props\<lparr>filters := [],
             dashboardInfo_metadata :=
               \<lparr>filterImmuneSlices = Some [], filterImmuneSliceFields = Some [(''2'', [''region''])]\<rparr>\<rparr>)
          \<lparr>appliedFilters = [(''10'', [(''region'', FArr [FStr ''US''])])], window_listeners = []\<rparr>)
     = [TriggerQuery True 1, TriggerQuery True 2, TriggerQuery True 3]"
  using remove_only_filter_requeries_all
    [of "\<lparr>appliedFilters = [(''10'', [(''region'', FArr [FStr ''US''])])], window_listeners = []\<rparr>"
        "''10''" "[(''region'', FArr [FStr ''US''])]"
        "scenario_props\<lparr>filters := [],
             dashboardInfo_metadata :=
               \<lparr>filterImmuneSlices = Some [], filterImmuneSliceFields = Some [(''2'', [''region''])]\<rparr>\<rparr>"
        "[(''2'', [''region''])]"]
  by (simp add: scenario_props_def getAllCharts_def Object_values_def)

text \<open>
  C6 as stated fails when the metadata has no mapping \<open>filterImmuneSliceFields\<close>: with
  one applied filter, no current filter, an empty list \<open>filterImmuneSlices\<close> and edit
  mode off, the run ends with a \<open>TypeError\<close> at the first chart and re-queries none of
  the three charts.
\<close>

theorem remove_only_filter_absent_mapping_counterexample:
  "componentDidUpdate
     (scenario_props\<lparr>filters := [],
        dashboardInfo_metadata :=
          \<lparr>filterImmuneSlices = Some [], filterImmuneSliceFields = None\<rparr>\<rparr>)
     \<lparr>appliedFilters = [(''10'', [(''region'', FArr [FStr ''US''])])], window_listeners = []\<rparr>
   = ([], Some TypeError,
      \<lparr>appliedFilters = [(''10'', [(''region'', FArr [FStr ''US''])])], window_listeners = []\<rparr>)"
  by (simp add: componentDidUpdate_unfold refreshes_def scenario_props_def
      safeStringify_nonempty changedFilterKey_def Object_keys_def Object_values_def
      refreshExcept_def getAllCharts_def refreshChart_def)

section \<open>The unload guard\<close>

text \<open>
  C9. When \<open>Dashboard.unload\<close> is not registered for \<open>beforeunload\<close>, calling
  \<open>onBeforeUnload(true)\<close> and then \<open>onBeforeUnload(false)\<close> gives back the listeners as
  they were: the handler is not registered afterwards and nothing else changed.
\<close>

theorem unload_guard_roundtrip:
  "(''beforeunload'', Dashboard_unload) \<notin> set w
    \<Longrightarrow> onBeforeUnload False (onBeforeUnload True w) = w"
  by (simp add: onBeforeUnload_def addEventListener_def removeEventListener_def remove1_append)

theorem unload_guard_roundtrip_witness:
  "onBeforeUnload True [(''click'', Other_listener 0)]
     = [(''click'', Other_listener 0), (''beforeunload'', Dashboard_unload)]
   \<and> onBeforeUnload False (onBeforeUnload True [(''click'', Other_listener 0)])
     = [(''click'', Other_listener 0)]"
  using unload_guard_roundtrip [of "[(''click'', Other_listener 0)]"]
  by (simp add: onBeforeUnload_def addEventListener_def)

section \<open>The layout diff\<close>

lemma count_list_distinct: "distinct xs \<Longrightarrow> count_list xs i = (if i \<in> set xs then 1 else 0)"
  by (induction xs) auto

lemma attaches_map_add:
  "attaches (map (\<lambda>j. AddSliceToDashboard j (g j)) xs) i = count_list xs i"
  by (induction xs) (auto simp: attaches_def)

lemma detaches_map_add: "detaches (map (\<lambda>j. AddSliceToDashboard j (g j)) xs) i = 0"
  by (induction xs) (auto simp: detaches_def)

lemma detaches_map_remove: "detaches (map RemoveSliceFromDashboard xs) i = count_list xs i"
  by (induction xs) (auto simp: detaches_def)

lemma attaches_map_remove: "attaches (map RemoveSliceFromDashboard xs) i = 0"
  by (induction xs) (auto simp: attaches_def)

lemma distinct_subset_length:
  assumes "distinct xs" and "distinct ys" and "set xs \<subseteq> set ys"
  shows "length xs \<le> length ys" and "length xs = length ys \<Longrightarrow> set xs = set ys"
proof -
  have c: "card (set xs) = length xs" "card (set ys) = length ys"
    using assms(1,2) by (simp_all add: distinct_card)
  show "length xs \<le> length ys"
    using card_mono [OF finite_set assms(3)] c by simp
  show "length xs = length ys \<Longrightarrow> set xs = set ys"
    using card_subset_eq [OF finite_set assms(3)] c by simp
qed

text \<open>
  C1, as the code has it. Let the chart ids of both layouts be free of duplicates,
  \<open>A\<close> the ids only in the previous layout and \<open>B\<close> the ids only in the next one. When
  the next layout has more chart ids than the previous one, there is exactly one
  attach call for each id of \<open>B\<close> and no detach call; when it has fewer, exactly one
  detach call for each id of \<open>A\<close> and no attach call; when both have as many, there is
  no call. So the calls are one detach for each id of \<open>A\<close> and one attach for each id
  of \<open>B\<close> whenever \<open>A\<close> or \<open>B\<close> is empty.
\<close>

theorem layout_diff_by_length:
  assumes "distinct (getIds (layout p))" and "distinct (getIds (layout q))"
  shows
    "(length (getIds (layout p)) < length (getIds (layout q)) \<longrightarrow>
        (\<forall>i. attaches (componentWillReceiveProps getIds getComp p q) i
               = (if i \<in> set (getIds (layout q)) - set (getIds (layout p)) then 1 else 0))
        \<and> (\<forall>i. detaches (componentWillReceiveProps getIds getComp p q) i = 0))
     \<and> (length (getIds (layout q)) < length (getIds (layout p)) \<longrightarrow>
        (\<forall>i. detaches (componentWillReceiveProps getIds getComp p q) i
               = (if i \<in> set (getIds (layout p)) - set (getIds (layout q)) then 1 else 0))
        \<and> (\<forall>i. attaches (componentWillReceiveProps getIds getComp p q) i = 0))
     \<and> (length (getIds (layout p)) = length (getIds (layout q)) \<longrightarrow>
        componentWillReceiveProps getIds getComp p q = [])
     \<and> (set (getIds (layout p)) - set (getIds (layout q)) = {}
          \<or> set (getIds (layout q)) - set (getIds (layout p)) = {} \<longrightarrow>
        (\<forall>i. detaches (componentWillReceiveProps getIds getComp p q) i
               = (if i \<in> set (getIds (layout p)) - set (getIds (layout q)) then 1 else 0))
        \<and> (\<forall>i. attaches (componentWillReceiveProps getIds getComp p q) i
               = (if i \<in> set (getIds (layout q)) - set (getIds (layout p)) then 1 else 0)))"
proof -
  let ?cur = "getIds (layout p)" and ?nxt = "getIds (layout q)"
  let ?calls = "componentWillReceiveProps getIds getComp p q"
  have dn: "distinct (filter (\<lambda>key. key \<notin> set ?cur) ?nxt)"
    and dc: "distinct (filter (\<lambda>key. key \<notin> set ?nxt) ?cur)"
    using assms by simp_all
  have more: "attaches ?calls i = (if i \<in> set ?nxt - set ?cur then 1 else 0)"
      "detaches ?calls i = 0" if "length ?cur < length ?nxt" for i
    using that count_list_distinct [OF dn, of i]
    by (simp_all add: componentWillReceiveProps_def Let_def attaches_map_add detaches_map_add)
  have fewer: "detaches ?calls i = (if i \<in> set ?cur - set ?nxt then 1 else 0)"
      "attaches ?calls i = 0" if "length ?nxt < length ?cur" for i
    using that count_list_distinct [OF dc, of i]
    by (simp_all add: componentWillReceiveProps_def Let_def detaches_map_remove attaches_map_remove)
  have same: "?calls = []" if "length ?cur = length ?nxt"
    using that by (simp add: componentWillReceiveProps_def Let_def)
  have one_sided: "detaches ?calls i = (if i \<in> set ?cur - set ?nxt then 1 else 0)
      \<and> attaches ?calls i = (if i \<in> set ?nxt - set ?cur then 1 else 0)"
    if e: "set ?cur - set ?nxt = {} \<or> set ?nxt - set ?cur = {}" for i
  proof -
    consider (lt) "length ?cur < length ?nxt" | (gt) "length ?nxt < length ?cur"
      | (eq) "length ?cur = length ?nxt"
      by linarith
    then show ?thesis
    proof cases
      case lt
      have "set ?cur - set ?nxt = {}"
      proof (rule ccontr)
        assume "set ?cur - set ?nxt \<noteq> {}"
        with e have "set ?nxt \<subseteq> set ?cur" by blast
        from distinct_subset_length(1) [OF assms(2) assms(1) this] lt show False by simp
      qed
      with more [OF lt, of i] show ?thesis by auto
    next
      case gt
      have "set ?nxt - set ?cur = {}"
      proof (rule ccontr)
        assume "set ?nxt - set ?cur \<noteq> {}"
        with e have "set ?cur \<subseteq> set ?nxt" by blast
        from distinct_subset_length(1) [OF assms(1) assms(2) this] gt show False by simp
      qed
      with fewer [OF gt, of i] show ?thesis by auto
    next
      case eq
      have "set ?cur = set ?nxt"
      proof (cases "set ?cur - set ?nxt = {}")
        case True
        then have "set ?cur \<subseteq> set ?nxt" by blast
        from distinct_subset_length(2) [OF assms(1) assms(2) this eq] show ?thesis .
      next
        case False
        with e have "set ?nxt \<subseteq> set ?cur" by blast
        from distinct_subset_length(2) [OF assms(2) assms(1) this] eq show ?thesis by simp
      qed
      with same [OF eq] show ?thesis by (simp add: attaches_def detaches_def)
    qed
  qed
  show ?thesis
    using more fewer same one_sided by blast
qed

theorem layout_diff_by_length_witness:
  "attaches (componentWillReceiveProps (\<lambda>l. l) (\<lambda>l i. i) (layout_props [1, 2]) (layout_props [2, 3, 1, 4])) 3 = 1
   \<and> attaches (componentWillReceiveProps (\<lambda>l. l) (\<lambda>l i. i) (layout_props [1, 2]) (layout_props [2, 3, 1, 4])) 4 = 1
   \<and> attaches (componentWillReceiveProps (\<lambda>l. l) (\<lambda>l i. i) (layout_props [1, 2]) (layout_props [2, 3, 1, 4])) 1 = 0
   \<and> detaches (componentWillReceiveProps (\<lambda>l. l) (\<lambda>l i. i) (layout_props [1, 2]) (layout_props [2, 3, 1, 4])) 1 = 0"
  using layout_diff_by_length
    [of "\<lambda>l. l" "layout_props [1, 2]" "layout_props [2, 3, 1, 4]" "\<lambda>l i. i"]
  by (simp add: layout_props_def)

text \<open>
  C1 as stated fails: from the chart ids \<open>[1]\<close> to the chart ids \<open>[2]\<close> chart 1 is
  removed and chart 2 is added, and the component makes no call; from \<open>[1, 2]\<close> to
  \<open>[3]\<close> it detaches 1 and 2 and does not attach 3.
\<close>

theorem layout_diff_simultaneous_counterexample:
  "componentWillReceiveProps (\<lambda>l. l) (\<lambda>l i. i) (layout_props [1]) (layout_props [2]) = []
   \<and> detaches (componentWillReceiveProps (\<lambda>l. l) (\<lambda>l i. i) (layout_props [1]) (layout_props [2])) 1 = 0
   \<and> attaches (componentWillReceiveProps (\<lambda>l. l) (\<lambda>l i. i) (layout_props [1]) (layout_props [2])) 2 = 0
   \<and> componentWillReceiveProps (\<lambda>l. l) (\<lambda>l i. i) (layout_props [1, 2]) (layout_props [3])
       = [RemoveSliceFromDashboard 1, RemoveSliceFromDashboard 2]"
  by (simp add: componentWillReceiveProps_def layout_props_def attaches_def detaches_def)

section \<open>At most one re-query for a chart\<close>

lemma requeries_append: "requeries (xs @ ys) i = requeries xs i + requeries ys i"
  by (simp add: requeries_def)

lemma refreshChart_cases:
  "refreshChart k names md c = Inl TypeError
   \<or> refreshChart k names md c = Inr []
   \<or> refreshChart k names md c = Inr [TriggerQuery True (chart_id c)]"
  by (simp add: refreshChart_def split: option.splits)

lemma requeries_forEachChart:
  "requeries (fst (forEachChart (refreshChart k names md) cs)) i \<le> count_list (map chart_id cs) i"
proof (induction cs)
  case Nil
  then show ?case by (simp add: requeries_def)
next
  case (Cons c cs)
  obtain more r where rest: "forEachChart (refreshChart k names md) cs = (more, r)"
    by (cases "forEachChart (refreshChart k names md) cs")
  with Cons.IH have ih: "requeries more i \<le> count_list (map chart_id cs) i"
    by simp
  from refreshChart_cases [of k names md c] show ?case
  proof (elim disjE)
    assume "refreshChart k names md c = Inl TypeError"
    then show ?thesis by (simp add: requeries_def)
  next
    assume "refreshChart k names md c = Inr []"
    then show ?thesis using rest ih by simp
  next
    assume "refreshChart k names md c = Inr [TriggerQuery True (chart_id c)]"
    then show ?thesis using rest ih by (simp add: requeries_def)
  qed
qed

lemma requeries_componentDidUpdate:
  "requeries (fst (componentDidUpdate p s)) i \<le> count_list (map chart_id (getAllCharts p)) i"
proof (cases "refreshes p s")
  case True
  then show ?thesis
    by (simp add: componentDidUpdate_calls refreshExcept_def requeries_forEachChart)
next
  case False
  then show ?thesis
    by (simp add: componentDidUpdate_calls requeries_def)
qed

text \<open>
  C8. During one run of \<open>componentDidUpdate\<close> the number of \<open>triggerQuery\<close> calls for a
  chart id is at most the number of charts with that id; so when the charts have
  different ids, every chart is re-queried at most once.
\<close>

theorem requery_at_most_once:
  "requeries (fst (componentDidUpdate p s)) i \<le> count_list (map chart_id (getAllCharts p)) i
   \<and> (distinct (map chart_id (getAllCharts p)) \<longrightarrow> requeries (fst (componentDidUpdate p s)) i \<le> 1)"
proof -
  have le: "requeries (fst (componentDidUpdate p s)) i \<le> count_list (map chart_id (getAllCharts p)) i"
    by (rule requeries_componentDidUpdate)
  have "distinct (map chart_id (getAllCharts p)) \<Longrightarrow> count_list (map chart_id (getAllCharts p)) i \<le> 1"
    by (simp add: count_list_distinct)
  with le show ?thesis by (meson order_trans)
qed

theorem requery_at_most_once_witness:
  "distinct (map chart_id (getAllCharts scenario_props))
   \<and> requeries (fst (componentDidUpdate scenario_props (constructor []))) 1 \<le> 1"
  using requery_at_most_once [of scenario_props "constructor []" 1]
  by (simp add: scenario_props_def getAllCharts_def Object_values_def)

section \<open>The representative changed key\<close>

lemma foldl_last_filter:
  "foldl (\<lambda>changed key. if P key then Some key else changed) init ks =
     (if filter P ks = [] then init else Some (last (filter P ks)))"
  by (induction ks arbitrary: init) auto

lemma changedFilterKey_last:
  "changedFilterKey applied current =
     (if changedKeys applied current = [] then None else Some (last (changedKeys applied current)))"
  unfolding changedFilterKey_def changedKeys_def
  by (rule foldl_last_filter)

lemma refreshExcept_fieldNames:
  "refreshExcept p (Some k) =
     forEachChart (refreshChart (Some k) (if k = [] then [] else fieldNames (filters p) k)
                     (dashboardInfo_metadata p)) (getAllCharts p)"
  by (simp add: refreshExcept_def fieldNames_def)

lemma refreshChart_told:
  "refreshChart k names md c =
     (if throwsAt k md c then Inl TypeError
      else if requeried k names md c then Inr [TriggerQuery True (chart_id c)]
      else Inr [])"
  by (simp add: refreshChart_def throwsAt_def requeried_def immuneFieldNames_def
      split: option.splits)

lemma forEachChart_told:
  "fst (forEachChart (refreshChart k names md) cs) =
     map (\<lambda>c. TriggerQuery True (chart_id c))
       (filter (requeried k names md) (takeWhile (\<lambda>c. \<not> throwsAt k md c) cs))"
proof (induction cs)
  case Nil
  then show ?case by simp
next
  case (Cons c cs)
  then show ?case
    by (simp add: refreshChart_told split_def)
qed

lemma refreshExcept_told:
  "fst (refreshExcept p (Some k)) =
     map (\<lambda>c. TriggerQuery True (chart_id c))
       (filter (requeried (Some k) (if k = [] then [] else fieldNames (filters p) k)
                  (dashboardInfo_metadata p))
          (takeWhile (\<lambda>c. \<not> throwsAt (Some k) (dashboardInfo_metadata p) c) (getAllCharts p)))"
  by (simp add: refreshExcept_fieldNames forEachChart_told)

text \<open>
  C10, as the code has it. Let more than one key of the current filters be new or
  differ from the applied filters. The key that the loop of \<open>componentDidUpdate\<close>
  keeps is the last of them in the enumeration order of the current filters. In edit
  mode, when the JSON texts of the two filter states agree, and when that key is the
  empty string while both states have as many keys, the component makes no call.
  Otherwise it visits the charts in order, up to the first chart at which an absent
  metadata field is reached, and re-queries a visited chart exactly when the chart is
  not the chart of that key, is not in \<open>filterImmuneSlices\<close>, and the field names of
  that key are none or one of them is not among the immune fields of the chart. The
  field names are those under that key in the current filters, and none when that key
  is the empty string; no other key contributes a field name.
\<close>

theorem last_changed_key_drives_requeries:
  assumes "1 < length (changedKeys (appliedFilters s) (filters p))"
  shows "changedFilterKey (appliedFilters s) (filters p)
           = Some (last (changedKeys (appliedFilters s) (filters p)))
     \<and> fst (componentDidUpdate p s) =
         (if editMode (dashboardState p)
             \<or> safeStringify (appliedFilters s) = safeStringify (filters p)
             \<or> (last (changedKeys (appliedFilters s) (filters p)) = []
                 \<and> length (Object_keys (filters p)) = length (Object_keys (appliedFilters s)))
          then []
          else map (\<lambda>c. TriggerQuery True (chart_id c))
                 (filter
                    (requeried (Some (last (changedKeys (appliedFilters s) (filters p))))
                       (if last (changedKeys (appliedFilters s) (filters p)) = [] then []
                        else fieldNames (filters p)
                               (last (changedKeys (appliedFilters s) (filters p))))
                       (dashboardInfo_metadata p))
                    (takeWhile
                       (\<lambda>c. \<not> throwsAt (Some (last (changedKeys (appliedFilters s) (filters p))))
                                  (dashboardInfo_metadata p) c)
                       (getAllCharts p))))"
proof -
  let ?k = "last (changedKeys (appliedFilters s) (filters p))"
  from assms have "changedKeys (appliedFilters s) (filters p) \<noteq> []"
    by auto
  then have key: "changedFilterKey (appliedFilters s) (filters p) = Some ?k"
    by (simp add: changedFilterKey_last)
  have dec: "refreshes p s \<longleftrightarrow>
      \<not> (editMode (dashboardState p)
         \<or> safeStringify (appliedFilters s) = safeStringify (filters p)
         \<or> (?k = [] \<and> length (Object_keys (filters p)) = length (Object_keys (appliedFilters s))))"
    by (auto simp: refreshes_def key)
  show ?thesis
  proof (cases "refreshes p s")
    case True
    with dec key show ?thesis
      by (auto simp: componentDidUpdate_calls refreshExcept_told)
  next
    case False
    with dec key show ?thesis
      by (simp add: componentDidUpdate_calls)
  qed
qed

theorem last_changed_key_drives_requeries_witness:
  "changedKeys (appliedFilters (constructor [])) (filters two_filters_props) = [''10'', ''11'']
   \<and> changedFilterKey (appliedFilters (constructor [])) (filters two_filters_props) = Some ''11''
   \<and> fst (componentDidUpdate two_filters_props (constructor []))
       = [TriggerQuery True 1, TriggerQuery True 2]
   \<and> fst (refreshExcept two_filters_props (Some ''10'')) = [TriggerQuery True 1]"
proof -
  have ks: "changedKeys (appliedFilters (constructor [])) (filters two_filters_props) = [''10'', ''11'']"
    by (simp add: changedKeys_def constructor_def two_filters_props_def scenario_props_def
        Object_keys_def)
  have len: "1 < length (changedKeys (appliedFilters (constructor [])) (filters two_filters_props))"
    using ks by simp
  have other: "fst (refreshExcept two_filters_props (Some ''10'')) = [TriggerQuery True 1]"
    by (simp add: refreshExcept_def two_filters_props_def scenario_props_def getAllCharts_def
        Object_keys_def Object_values_def refreshChart_def js_String_1 js_String_2 js_String_3)
  show ?thesis
    using last_changed_key_drives_requeries [OF len] ks other
    by (simp add: two_filters_props_def scenario_props_def constructor_def
        safeStringify_nonempty' fieldNames_def getAllCharts_def Object_keys_def Object_values_def
        requeried_def throwsAt_def immuneFieldNames_def js_String_1 js_String_2 js_String_3)
qed

text \<open>
  C10 as stated fails when the last changed key is the empty string. With no applied
  filter and the current filters \<open>{"10": {"country": ["FR"]}, "": {"region": ["US"]}}\<close>
  both keys are new and the last one is the empty string, whose only field is
  \<open>region\<close>. Chart 2 is immune to \<open>region\<close>, so a comparison with the field names of that
  key re-queries nothing; the component compares with no field name and re-queries
  chart 2.
\<close>

theorem empty_last_key_counterexample:
  "changedKeys (appliedFilters (constructor [])) (filters empty_key_props) = [''10'', []]
   \<and> fieldNames (filters empty_key_props) [] = [''region'']
   \<and> immuneFieldNames (dashboardInfo_metadata empty_key_props) \<lparr>chart_id = 2\<rparr> = [''region'']
   \<and> fst (forEachChart (refreshChart (Some []) [''region''] (dashboardInfo_metadata empty_key_props))
             (getAllCharts empty_key_props)) = []
   \<and> fst (componentDidUpdate empty_key_props (constructor [])) = [TriggerQuery True 2]"
  by (simp add: componentDidUpdate_calls refreshes_def empty_key_props_def constructor_def
      safeStringify_nonempty' changedKeys_def changedFilterKey_def fieldNames_def
      immuneFieldNames_def Object_keys_def Object_values_def refreshExcept_def getAllCharts_def
      refreshChart_def js_String_2)

section \<open>The applied filters\<close>

text \<open>
  C7, as the code has it. The component evaluates the re-queries when edit mode is
  off, the JSON texts of the applied and the current filters differ, and a changed key
  was recorded (a key of the current filters is new or differs, and the last such key
  is not the empty string, which is falsy) or the numbers of keys differ. When it does
  and the evaluation ends without an error, \<open>this.appliedFilters\<close> is the current
  filter state afterwards; in every other case \<open>this.appliedFilters\<close> is unchanged.
\<close>

theorem applied_filters_baseline:
  "appliedFilters (snd (snd (componentDidUpdate p s))) =
     (if \<not> editMode (dashboardState p)
         \<and> safeStringify (appliedFilters s) \<noteq> safeStringify (filters p)
         \<and> (changedKeys (appliedFilters s) (filters p) \<noteq> []
              \<and> last (changedKeys (appliedFilters s) (filters p)) \<noteq> []
            \<or> length (Object_keys (filters p)) \<noteq> length (Object_keys (appliedFilters s)))
         \<and> fst (snd (componentDidUpdate p s)) = None
      then filters p else appliedFilters s)"
proof -
  have "truthy (changedFilterKey (appliedFilters s) (filters p)) \<longleftrightarrow>
      changedKeys (appliedFilters s) (filters p) \<noteq> []
      \<and> last (changedKeys (appliedFilters s) (filters p)) \<noteq> []"
    by (simp add: changedFilterKey_last)
  then have "refreshes p s \<longleftrightarrow>
      \<not> editMode (dashboardState p)
      \<and> safeStringify (appliedFilters s) \<noteq> safeStringify (filters p)
      \<and> (changedKeys (appliedFilters s) (filters p) \<noteq> []
           \<and> last (changedKeys (appliedFilters s) (filters p)) \<noteq> []
          \<or> length (Object_keys (filters p)) \<noteq> length (Object_keys (appliedFilters s)))"
    by (simp add: refreshes_def)
  then show ?thesis
    by (auto simp: componentDidUpdate_applied componentDidUpdate_error)
qed

theorem applied_filters_baseline_witness:
  "appliedFilters (snd (snd (componentDidUpdate scenario_props (constructor []))))
     = [(''10'', [(''region'', FArr [FStr ''US''])])]
   \<and> appliedFilters (snd (snd (componentDidUpdate
         (scenario_props\<lparr>dashboardState := \<lparr>hasUnsavedChanges = False, editMode = True\<rparr>\<rparr>)
         (constructor [])))) = []"
proof -
  have ks: "changedKeys [] [(''10'', [(''region'', FArr [FStr ''US''])])] = [''10'']"
    by (simp add: changedKeys_def Object_keys_def)
  have ok: "fst (snd (componentDidUpdate scenario_props (constructor []))) = None"
    by (simp add: componentDidUpdate_error refreshes_def scenario_props_def constructor_def
        safeStringify_nonempty' changedFilterKey_def Object_keys_def Object_values_def
        refreshExcept_def getAllCharts_def refreshChart_def js_String_1 js_String_2 js_String_3)
  show ?thesis
    using applied_filters_baseline [of scenario_props "constructor []"]
      applied_filters_baseline
        [of "scenario_props\<lparr>dashboardState := \<lparr>hasUnsavedChanges = False, editMode = True\<rparr>\<rparr>"
            "constructor []"]
      ks ok
    by (simp add: scenario_props_def constructor_def safeStringify_nonempty' Object_keys_def)
qed

text \<open>
  C7 as stated fails in two ways. In the scenario of the spec with the metadata fields
  absent the component decides to refresh (edit mode is off and key \<open>10\<close> is new), the
  evaluation throws, and the applied filters stay empty. And when the only change is
  the value under the empty-string key, a changed key is found, nothing is evaluated
  and the applied filters stay as they were.
\<close>

theorem applied_filters_not_updated_counterexample:
  "refreshes
     (scenario_props\<lparr>dashboardInfo_metadata :=
        \<lparr>filterImmuneSlices = None, filterImmuneSliceFields = None\<rparr>\<rparr>)
     (constructor [])
   \<and> appliedFilters (snd (snd (componentDidUpdate
        (scenario_props\<lparr>dashboardInfo_metadata :=
           \<lparr>filterImmuneSlices = None, filterImmuneSliceFields = None\<rparr>\<rparr>)
        (constructor [])))) = []
   \<and> changedKeys empty_key_applied (filters empty_key_changed_props) = [[]]
   \<and> \<not> editMode (dashboardState empty_key_changed_props)
   \<and> fst (componentDidUpdate empty_key_changed_props
            \<lparr>appliedFilters = empty_key_applied, window_listeners = []\<rparr>) = []
   \<and> appliedFilters (snd (snd (componentDidUpdate empty_key_changed_props
        \<lparr>appliedFilters = empty_key_applied, window_listeners = []\<rparr>))) = empty_key_applied
   \<and> filters empty_key_changed_props \<noteq> empty_key_applied"
proof -
  have r: "refreshes
     (scenario_props\<lparr>dashboardInfo_metadata :=
        \<lparr>filterImmuneSlices = None, filterImmuneSliceFields = None\<rparr>\<rparr>)
     (constructor [])"
    by (simp add: refreshes_def scenario_props_def constructor_def safeStringify_nonempty'
        changedFilterKey_def Object_keys_def)
  have a: "appliedFilters (snd (snd (componentDidUpdate
        (scenario_props\<lparr>dashboardInfo_metadata :=
           \<lparr>filterImmuneSlices = None, filterImmuneSliceFields = None\<rparr>\<rparr>)
        (constructor [])))) = []"
    by (simp add: componentDidUpdate_unfold refreshes_def scenario_props_def constructor_def
        safeStringify_nonempty' changedFilterKey_def Object_keys_def Object_values_def
        refreshExcept_def getAllCharts_def refreshChart_def js_String_1)
  have ks: "changedKeys empty_key_applied (filters empty_key_changed_props) = [[]]"
    by (simp add: changedKeys_def empty_key_applied_def empty_key_changed_props_def
        empty_key_props_def Object_keys_def)
  have n: "\<not> refreshes empty_key_changed_props
      \<lparr>appliedFilters = empty_key_applied, window_listeners = []\<rparr>"
    by (simp add: refreshes_def changedFilterKey_def empty_key_applied_def
        empty_key_changed_props_def empty_key_props_def Object_keys_def)
  have e: "\<not> editMode (dashboardState empty_key_changed_props)"
    by (simp add: empty_key_changed_props_def empty_key_props_def)
  have d: "filters empty_key_changed_props \<noteq> empty_key_applied"
    by (simp add: empty_key_applied_def empty_key_changed_props_def empty_key_props_def)
  from r a ks n e d show ?thesis
    by (simp add: componentDidUpdate_calls componentDidUpdate_applied)
qed

section \<open>Absent metadata\<close>

lemma forEachChart_error:
  "snd (forEachChart f cs) = (if \<exists>c\<in>set cs. isl (f c) then Some TypeError else None)"
proof (induction cs)
  case Nil
  then show ?case by simp
next
  case (Cons c cs)
  show ?case
  proof (cases "f c")
    case (Inl e)
    then show ?thesis by (cases e) simp
  next
    case (Inr calls)
    then show ?thesis using Cons.IH
      by (simp add: split_def)
  qed
qed

lemma refreshChart_isl:
  "isl (refreshChart k names md c) \<longleftrightarrow>
     Some (js_String (chart_id c)) \<noteq> k
     \<and> (case filterImmuneSlices md of
          None \<Rightarrow> True
        | Some l \<Rightarrow> chart_id c \<notin> set l \<and> filterImmuneSliceFields md = None)"
  by (simp add: refreshChart_def split: option.splits)

lemma refreshExcept_error:
  "snd (refreshExcept p k) =
     (if \<exists>c\<in>set (getAllCharts p). isl (refreshChart k
            (case k of None \<Rightarrow> []
             | Some k' \<Rightarrow> if k' = [] then []
                 else case map_of (filters p) k' of None \<Rightarrow> [] | Some obj \<Rightarrow> Object_keys obj)
            (dashboardInfo_metadata p) c)
      then Some TypeError else None)"
  by (simp add: refreshExcept_def forEachChart_error)

text \<open>
  C3, as the code has it. When the metadata has both the list \<open>filterImmuneSlices\<close>
  and the mapping \<open>filterImmuneSliceFields\<close>, \<open>componentDidUpdate\<close> ends without an
  error, and a chart with no entry in the mapping is treated as a chart with an empty
  list of immune fields. An absent list or mapping is not replaced by an empty one:
  when the charts are refreshed, the run ends with a \<open>TypeError\<close> as soon as a chart
  reaches the absent list (its id is not the filter key) or the absent mapping (its id
  is neither the filter key nor in the list).
\<close>

theorem metadata_present_completes:
  "(filterImmuneSlices (dashboardInfo_metadata p) = Some l
      \<and> filterImmuneSliceFields (dashboardInfo_metadata p) = Some m
     \<longrightarrow> fst (snd (componentDidUpdate p s)) = None)
   \<and> (filterImmuneSliceFields md = Some m \<and> map_of m (js_String (chart_id c)) = None
     \<longrightarrow> refreshChart k names md c
          = refreshChart k names
              (md\<lparr>filterImmuneSliceFields := Some ((js_String (chart_id c), []) # m)\<rparr>) c)
   \<and> (refreshes p s \<and> filterImmuneSlices (dashboardInfo_metadata p) = None
      \<and> (\<exists>c\<in>set (getAllCharts p).
            Some (js_String (chart_id c)) \<noteq> changedFilterKey (appliedFilters s) (filters p))
     \<longrightarrow> fst (snd (componentDidUpdate p s)) = Some TypeError)
   \<and> (refreshes p s \<and> filterImmuneSlices (dashboardInfo_metadata p) = Some l
      \<and> filterImmuneSliceFields (dashboardInfo_metadata p) = None
      \<and> (\<exists>c\<in>set (getAllCharts p).
            Some (js_String (chart_id c)) \<noteq> changedFilterKey (appliedFilters s) (filters p)
            \<and> chart_id c \<notin> set l)
     \<longrightarrow> fst (snd (componentDidUpdate p s)) = Some TypeError)"
proof (intro conjI impI)
  assume "filterImmuneSlices (dashboardInfo_metadata p) = Some l
      \<and> filterImmuneSliceFields (dashboardInfo_metadata p) = Some m"
  then show "fst (snd (componentDidUpdate p s)) = None"
    by (simp add: componentDidUpdate_error refreshExcept_error refreshChart_isl)
next
  assume "filterImmuneSliceFields md = Some m \<and> map_of m (js_String (chart_id c)) = None"
  then show "refreshChart k names md c
      = refreshChart k names
          (md\<lparr>filterImmuneSliceFields := Some ((js_String (chart_id c), []) # m)\<rparr>) c"
    by (simp add: refreshChart_def split: option.splits)
next
  assume "refreshes p s \<and> filterImmuneSlices (dashboardInfo_metadata p) = None
      \<and> (\<exists>c\<in>set (getAllCharts p).
            Some (js_String (chart_id c)) \<noteq> changedFilterKey (appliedFilters s) (filters p))"
  then show "fst (snd (componentDidUpdate p s)) = Some TypeError"
    by (simp add: componentDidUpdate_error refreshExcept_error refreshChart_isl)
next
  assume "refreshes p s \<and> filterImmuneSlices (dashboardInfo_metadata p) = Some l
      \<and> filterImmuneSliceFields (dashboardInfo_metadata p) = None
      \<and> (\<exists>c\<in>set (getAllCharts p).
            Some (js_String (chart_id c)) \<noteq> changedFilterKey (appliedFilters s) (filters p)
            \<and> chart_id c \<notin> set l)"
  then show "fst (snd (componentDidUpdate p s)) = Some TypeError"
    by (simp add: componentDidUpdate_error refreshExcept_error refreshChart_isl)
qed

theorem metadata_present_completes_witness:
  "filterImmuneSlices (dashboardInfo_metadata scenario_props) = Some [3]
   \<and> filterImmuneSliceFields (dashboardInfo_metadata scenario_props) = Some [(''2'', [''region''])]
   \<and> fst (snd (componentDidUpdate scenario_props (constructor []))) = None"
  using metadata_present_completes [of scenario_props "[3]" "[(''2'', [''region''])]" "constructor []"]
  by (simp add: scenario_props_def)

text \<open>
  C3 as stated fails: in the scenario of the spec with both metadata fields absent,
  with only the list absent and with only the mapping absent, the run ends with a
  \<open>TypeError\<close> at chart 1, no chart is re-queried and the applied filters stay empty.
\<close>

theorem absent_metadata_counterexample:
  "componentDidUpdate
     (scenario_props\<lparr>dashboardInfo_metadata :=
        \<lparr>filterImmuneSlices = None, filterImmuneSliceFields = None\<rparr>\<rparr>)
     (constructor []) = ([], Some TypeError, constructor [])
   \<and> componentDidUpdate
     (scenario_props\<lparr>dashboardInfo_metadata :=
        \<lparr>filterImmuneSlices = None, filterImmuneSliceFields = Some [(''2'', [''region''])]\<rparr>\<rparr>)
     (constructor []) = ([], Some TypeError, constructor [])
   \<and> componentDidUpdate
     (scenario_props\<lparr>dashboardInfo_metadata :=
        \<lparr>filterImmuneSlices = Some [3], filterImmuneSliceFields = None\<rparr>\<rparr>)
     (constructor []) = ([], Some TypeError, constructor [])"
  by (simp add: componentDidUpdate_unfold refreshes_def scenario_props_def constructor_def
      safeStringify_nonempty' changedFilterKey_def Object_keys_def Object_values_def
      refreshExcept_def getAllCharts_def refreshChart_def js_String_1 js_String_2 js_String_3)

section \<open>Structurally equal filters\<close>

lemma wf_object_length:
  assumes "wf_object obj"
  shows "length obj = card (dom (map_of obj))"
proof -
  have "card (set (map fst obj)) = length (map fst obj)"
    using assms unfolding wf_object_def by (rule distinct_card)
  then show ?thesis
    by (simp add: dom_map_of_conv_image_fst)
qed

lemma areObjectsEqual_same_map:
  assumes "wf_object a" and "wf_object b" and "map_of a = map_of b"
  shows "areObjectsEqual (Some a) (Some b)"
proof -
  have "length a = length b"
    using assms by (simp add: wf_object_length)
  moreover have "map_of b k = Some v" if "(k, v) \<in> set a" for k v
  proof -
    have "map_of a k = Some v"
      using that assms(1) by (simp add: wf_object_def)
    with assms(3) show ?thesis by simp
  qed
  ultimately show ?thesis
    by (auto simp: list_all_iff)
qed

lemma foldl_unchanged:
  "(\<And>key. key \<in> set ks \<Longrightarrow> \<not> P key)
    \<Longrightarrow> foldl (\<lambda>changed key. if P key then Some key else changed) init ks = init"
  by (induction ks arbitrary: init) auto

lemma structurallyEqual_lookup:
  "structurallyEqual a b \<Longrightarrow> map_option map_of (map_of a k) = map_option map_of (map_of b k)"
  by (simp add: structurallyEqual_def fun_eq_iff)

lemma structurallyEqual_no_change:
  assumes "wf_filters a" and "wf_filters b" and "structurallyEqual a b"
  shows "changedFilterKey a b = None" and "length (Object_keys b) = length (Object_keys a)"
proof -
  have same: "\<not> (map_of a key = None \<or> \<not> areObjectsEqual (map_of a key) (map_of b key))"
    if "key \<in> set (Object_keys b)" for key
  proof -
    have "map_of b key \<noteq> None"
      using that by (simp add: Object_keys_def map_of_eq_None_iff)
    then obtain vb where vb: "map_of b key = Some vb"
      by blast
    with structurallyEqual_lookup [OF assms(3), of key]
    obtain va where va: "map_of a key = Some va" and eq: "map_of va = map_of vb"
      by (cases "map_of a key") auto
    have "wf_object va"
      using map_of_SomeD [OF va] assms(1) by (auto simp: wf_filters_def list_all_iff)
    moreover have "wf_object vb"
      using map_of_SomeD [OF vb] assms(2) by (auto simp: wf_filters_def list_all_iff)
    ultimately have "areObjectsEqual (Some va) (Some vb)"
      using eq by (rule areObjectsEqual_same_map)
    with va vb show ?thesis by simp
  qed
  then show "changedFilterKey a b = None"
    unfolding changedFilterKey_def by (rule foldl_unchanged)
  have "dom (map_of a) = dom (map_of b)"
  proof -
    have "map_of a k = None \<longleftrightarrow> map_of b k = None" for k
      using structurallyEqual_lookup [OF assms(3), of k]
      by (cases "map_of a k"; cases "map_of b k") simp_all
    then show ?thesis by (auto simp: dom_def)
  qed
  then show "length (Object_keys b) = length (Object_keys a)"
    using assms(1,2) by (simp add: Object_keys_def wf_filters_def wf_object_length)
qed

text \<open>
  C5. When the applied filters and the current filters are objects (no key twice, at
  both levels) and are structurally equal, that is the same nested mapping whatever
  the order of their keys, the component makes no call, whatever the charts, the
  metadata and the edit mode are; and the applied filters stay as they are.
\<close>

theorem equal_filters_no_requery:
  assumes "wf_filters (appliedFilters s)" and "wf_filters (filters p)"
    and "structurallyEqual (appliedFilters s) (filters p)"
  shows "fst (componentDidUpdate p s) = []
    \<and> appliedFilters (snd (snd (componentDidUpdate p s))) = appliedFilters s"
proof -
  have "\<not> refreshes p s"
    using structurallyEqual_no_change [OF assms] by (simp add: refreshes_def)
  then show ?thesis
    by (simp add: componentDidUpdate_calls componentDidUpdate_applied)
qed

theorem equal_filters_no_requery_witness:
  "wf_filters two_fields_reordered \<and> wf_filters (filters two_fields_props)
   \<and> structurallyEqual two_fields_reordered (filters two_fields_props)
   \<and> safeStringify two_fields_reordered \<noteq> safeStringify (filters two_fields_props)
   \<and> fst (componentDidUpdate two_fields_props
            \<lparr>appliedFilters = two_fields_reordered, window_listeners = []\<rparr>) = []"
proof -
  have wa: "wf_filters two_fields_reordered"
    by (simp add: wf_filters_def wf_object_def two_fields_reordered_def)
  have wb: "wf_filters (filters two_fields_props)"
    by (simp add: wf_filters_def wf_object_def two_fields_props_def scenario_props_def)
  have se: "structurallyEqual two_fields_reordered (filters two_fields_props)"
    by (auto simp: structurallyEqual_def fun_eq_iff two_fields_reordered_def
        two_fields_props_def scenario_props_def)
  have ne: "safeStringify two_fields_reordered \<noteq> safeStringify (filters two_fields_props)"
    by (simp add: two_fields_reordered_def two_fields_props_def scenario_props_def
        safeStringify_def stringify_object_def quote_def escape_char_def)
  show ?thesis
    using equal_filters_no_requery
      [of "\<lparr>appliedFilters = two_fields_reordered, window_listeners = []\<rparr>" two_fields_props]
      wa wb se ne
    by simp
qed

end
